theory Spec2Isabelle
  imports Complex_Main "HOL-Library.Word"
begin

section \<open>Numbers\<close>

text \<open>
  The program computes with C++ \<open>float\<close> and \<open>double\<close>. Both are modelled by the real
  numbers they denote: \<open>+\<close>, \<open>-\<close>, \<open>*\<close> and \<open>/\<close> are exact and \<open>M_PI\<close> is \<open>pi\<close>, so rounding,
  overflow to infinity, underflow and signed zeros are outside the model. What has no
  real number as its result is a \<open>fault\<close>: in IEEE arithmetic such an operation yields
  a NaN (or an infinity that becomes a NaN further on), which then reaches
  \<open>static_cast<int>\<close>, whose behaviour on it is undefined.

  The exact result and the program's differ in places. Components whose squares
  underflow or overflow give a computed norm of 0 or infinity where the exact norm is
  an ordinary number. Rounding can carry the argument of \<open>asinf\<close> just beyond 1 on a
  quaternion of norm 1, and the program's pitch is then a NaN. Next to a multiple of a
  bucket's width the truncated bar length may be the neighbouring integer. With a
  negative zero as its first argument and a negative second one, the C library's
  \<open>atan2f\<close> returns \<open>-pi\<close> where the function below returns \<open>pi\<close>. The theorems of this theory are
  about single quaternions whose computation is exact, about ranges of values, about
  which fields a callback writes, and about normalization, where the program's values
  differ from the exact ones in the last digit at most.
\<close>

datatype fault = division_by_zero | domain_error | int_out_of_range

definition and_then :: "'e + 'a \<Rightarrow> ('a \<Rightarrow> 'e + 'b) \<Rightarrow> 'e + 'b" where
  "and_then r f = (case r of Inl e \<Rightarrow> Inl e | Inr v \<Rightarrow> f v)"

definition fdiv :: "real \<Rightarrow> real \<Rightarrow> fault + real" where
  "fdiv a b = (if b = 0 then Inl division_by_zero else Inr (a / b))"

definition sqrtf :: "real \<Rightarrow> fault + real" where
  "sqrtf a = (if a < 0 then Inl domain_error else Inr (sqrt a))"

definition asinf :: "real \<Rightarrow> fault + real" where
  "asinf a = (if - 1 \<le> a \<and> a \<le> 1 then Inr (arcsin a) else Inl domain_error)"

text \<open>The four-quadrant arctangent of the C library, \<open>atan2f(y, x)\<close>.\<close>

definition atan2f :: "real \<Rightarrow> real \<Rightarrow> real" where
  "atan2f y x =
     (if 0 < x then arctan (y / x)
      else if x < 0 then (if 0 \<le> y then arctan (y / x) + pi else arctan (y / x) - pi)
      else if 0 < y then pi / 2
      else if y < 0 then - (pi / 2)
      else 0)"

text \<open>
  \<open>static_cast<int>(v)\<close>: the fractional part is discarded (truncation towards zero);
  the behaviour is undefined when the truncated value is no 32-bit \<open>int\<close>.
\<close>

definition trunc_toward_zero :: "real \<Rightarrow> int" where
  "trunc_toward_zero v = (if 0 \<le> v then \<lfloor>v\<rfloor> else \<lceil>v\<rceil>)"

definition to_int :: "real \<Rightarrow> fault + int" where
  "to_int v =
     (let t = trunc_toward_zero v
      in if - (2 ^ 31) \<le> t \<and> t < 2 ^ 31 then Inr t else Inl int_out_of_range)"

section \<open>The listener\<close>

text \<open>\<open>myo::Quaternion<float>\<close>, constructed as \<open>(x, y, z, w)\<close>.\<close>

datatype quaternion = Quaternion (qx: real) (qy: real) (qz: real) (qw: real)

text \<open>
  \<open>DataCollector\<close>. The pose type \<open>'p\<close> is the SDK's \<open>myo::Pose\<close>, which the program
  stores, compares with \<open>myo::Pose::fist\<close> and prints with \<open>toString()\<close>. The three
  \<open>int\<close> fields hold mathematical integers; every write goes through \<open>to_int\<close>.
\<close>

record 'p DataCollector =
  roll_w :: int
  pitch_w :: int
  yaw_w :: int
  currentPose :: 'p

text \<open>The constructor; \<open>default_pose\<close> is the SDK's value-initialised \<open>myo::Pose()\<close>.\<close>

definition DataCollector_init :: "'p \<Rightarrow> 'p DataCollector" where
  "DataCollector_init default_pose =
     \<lparr>roll_w = 0, pitch_w = 0, yaw_w = 0, currentPose = default_pose\<rparr>"

subsection \<open>onOrientationData\<close>

text \<open>The local \<open>norm\<close> (line 31).\<close>

definition norm_of :: "quaternion \<Rightarrow> fault + real" where
  "norm_of quat =
     sqrtf (qx quat * qx quat + qy quat * qy quat + qz quat * qz quat + qw quat * qw quat)"

text \<open>The local \<open>normalized\<close> (line 32).\<close>

definition normalized :: "quaternion \<Rightarrow> fault + quaternion" where
  "normalized quat =
     and_then (norm_of quat) (\<lambda>norm.
     and_then (fdiv (qx quat) norm) (\<lambda>x.
     and_then (fdiv (qy quat) norm) (\<lambda>y.
     and_then (fdiv (qz quat) norm) (\<lambda>z.
     and_then (fdiv (qw quat) norm) (\<lambda>w.
     Inr (Quaternion x y z w))))))"

text \<open>The locals \<open>roll\<close>, \<open>pitch\<close> and \<open>yaw\<close> (lines 35 to 39), from the normalized quaternion.\<close>

definition roll :: "quaternion \<Rightarrow> real" where
  "roll n = atan2f (2 * (qw n * qx n + qy n * qz n)) (1 - 2 * (qx n * qx n + qy n * qy n))"

definition pitch :: "quaternion \<Rightarrow> fault + real" where
  "pitch n = asinf (2 * (qw n * qy n - qz n * qx n))"

definition yaw :: "quaternion \<Rightarrow> real" where
  "yaw n = atan2f (2 * (qw n * qz n + qx n * qy n)) (1 - 2 * (qy n * qy n + qz n * qz n))"

text \<open>The right-hand sides of the three assignments (lines 42 to 44).\<close>

definition roll_bucket :: "real \<Rightarrow> fault + int" where
  "roll_bucket r = to_int ((r + pi) / (pi * 2) * 18)"

definition pitch_bucket :: "real \<Rightarrow> fault + int" where
  "pitch_bucket p = to_int ((p + pi / 2) / pi * 18)"

definition yaw_bucket :: "real \<Rightarrow> fault + int" where
  "yaw_bucket y = to_int ((y + pi) / (pi * 2) * 18)"

text \<open>
  The three assignments together (lines 42 to 44), as a function of the three angles.
\<close>

definition store_bar_lengths ::
  "'p DataCollector \<Rightarrow> real \<Rightarrow> real \<Rightarrow> real \<Rightarrow> fault + 'p DataCollector" where
  "store_bar_lengths c r p y =
     and_then (roll_bucket r) (\<lambda>rw.
     and_then (pitch_bucket p) (\<lambda>pw.
     and_then (yaw_bucket y) (\<lambda>yw.
     Inr (c\<lparr>roll_w := rw, pitch_w := pw, yaw_w := yw\<rparr>))))"

text \<open>
  The device handle \<open>myo::Myo*\<close> and the \<open>uint64_t\<close> time stamp are passed to both
  callbacks; \<open>onOrientationData\<close> uses neither.
\<close>

type_synonym myo = nat
type_synonym timestamp = "64 word"

definition onOrientationData ::
  "'p DataCollector \<Rightarrow> myo \<Rightarrow> timestamp \<Rightarrow> quaternion \<Rightarrow> fault + 'p DataCollector" where
  "onOrientationData c m t quat =
     and_then (normalized quat) (\<lambda>n.
     and_then (pitch n) (\<lambda>p.
     store_bar_lengths c (roll n) p (yaw n)))"

subsection \<open>onPose\<close>

text \<open>
  The SDK's vibration-trigger call takes a discrete intensity level;
  \<open>myo::Myo::VibrationMedium\<close> is the one level the program names. A callback returns
  the calls it made on the device together with the updated listener.
\<close>

datatype VibrationType = VibrationMedium

datatype command = vibrate myo VibrationType

text \<open>\<open>fist\<close> is the SDK's \<open>myo::Pose::fist\<close>.\<close>

definition onPose ::
  "'p \<Rightarrow> 'p DataCollector \<Rightarrow> myo \<Rightarrow> timestamp \<Rightarrow> 'p \<Rightarrow> 'p DataCollector \<times> command list" where
  "onPose fist c m t pose =
     (let c' = c\<lparr>currentPose := pose\<rparr>
      in (c', if currentPose c' = fist
              then (if pitch_w c' < 5 then [vibrate m VibrationMedium] else [])
              else []))"

subsection \<open>print\<close>

text \<open>
  The exceptions that reach the \<open>catch\<close> of \<open>main\<close>: the \<open>std::runtime_error\<close> the
  program throws itself, the failure of the \<open>std::string(count, ch)\<close> constructor, and
  whatever \<open>std::exception\<close> a call into the SDK throws (with its message).
\<close>

datatype exception = runtime_error string | length_error | sdk_exception string

text \<open>
  \<open>std::string(count, ch)\<close>. The count is a \<open>size_t\<close>, here of 64 bits. No implementation
  can build a string of more than \<open>PTRDIFF_MAX\<close> (\<open>2\<^sup>6\<^sup>3 - 1\<close>) characters: the constructor throws
  (\<open>std::length_error\<close>; where the library's \<open>max_size()\<close> is larger, \<open>std::bad_alloc\<close>).
\<close>

type_synonym size_t = "64 word"

definition string_fill :: "size_t \<Rightarrow> char \<Rightarrow> exception + string" where
  "string_fill count ch =
     (if count \<le> 0x7FFFFFFFFFFFFFFF then Inr (replicate (unat count) ch)
      else Inl length_error)"

text \<open>
  Writing \<open>std::string(count, ch)\<close> to standard output after \<open>out\<close> has been written,
  and going on with \<open>rest\<close>. The operands of \<open><<\<close> are evaluated from left to right (as
  C++17 fixes it), so the string is built when everything before it has been
  written: if its constructor throws, \<open>out\<close> is what has been written.
\<close>

definition write_fill ::
  "string \<Rightarrow> size_t \<Rightarrow> char \<Rightarrow> (string \<Rightarrow> string \<times> exception + string)
     \<Rightarrow> string \<times> exception + string" where
  "write_fill out count ch rest =
     (case string_fill count ch of Inl e \<Rightarrow> Inl (out, e) | Inr s \<Rightarrow> rest (out @ s))"

text \<open>
  \<open>print\<close> returns the line it writes to standard output (\<open>Inr\<close>), or what it has
  written of the line when a string constructor throws, with the exception (\<open>Inl\<close>).
  \<open>toString\<close> is the SDK's \<open>Pose::toString()\<close>. An \<open>int\<close> argument is converted to
  \<open>size_t\<close>; \<open>16 - poseString.size()\<close> is computed in \<open>size_t\<close>.
\<close>

definition print ::
  "('p \<Rightarrow> string) \<Rightarrow> 'p DataCollector \<Rightarrow> (string \<times> exception + string) \<times> 'p DataCollector" where
  "print toString c =
     (let poseString = toString (currentPose c)
      in (write_fill ([CHR 0x0D] @ ''['') (word_of_int (roll_w c)) CHR ''*'' (\<lambda>out.
          write_fill out (word_of_int (18 - roll_w c)) CHR '' '' (\<lambda>out.
          write_fill (out @ '']'' @ ''['') (word_of_int (pitch_w c)) CHR ''*'' (\<lambda>out.
          write_fill out (word_of_int (18 - pitch_w c)) CHR '' '' (\<lambda>out.
          write_fill (out @ '']'' @ ''['') (word_of_int (yaw_w c)) CHR ''*'' (\<lambda>out.
          write_fill out (word_of_int (18 - yaw_w c)) CHR '' '' (\<lambda>out.
          write_fill (out @ '']'' @ ''['' @ poseString)
            (16 - of_nat (length poseString)) CHR '' '' (\<lambda>out.
          Inr (out @ '']'')))))))),
          c))"

section \<open>The program\<close>

text \<open>
  What the program takes from outside. The device SDK is not part of the repository:
  each of its calls is a field, giving what the call returns or, for the calls of
  start-up, the message of the exception it throws instead. \<open>run i ms\<close> is the
  \<open>i\<close>-th call of \<open>hub.run(ms)\<close>: the events it delivers to the registered listener.
  \<open>length_error_what\<close> is the C++ library's message for a failed string constructor.
\<close>

datatype 'p event =
  OrientationData myo timestamp quaternion
| Pose myo timestamp 'p
| Other

record 'p platform =
  Hub_ctor :: "string option"
  waitForAnyMyo :: "nat \<Rightarrow> string + myo option"
  macAddress :: "myo \<Rightarrow> 64 word"
  run :: "nat \<Rightarrow> nat \<Rightarrow> string + 'p event list"
  Pose_default :: 'p
  Pose_fist :: 'p
  Pose_toString :: "'p \<Rightarrow> string"
  length_error_what :: string

text \<open>What the process has done so far.\<close>

record world =
  stdout :: string
  stderr :: string
  stdin_ignored :: nat
  commands :: "command list"

definition world_init :: world where
  "world_init = \<lparr>stdout = [], stderr = [], stdin_ignored = 0, commands = []\<rparr>"

definition endl :: string where
  "endl = [CHR 0x0A]"

text \<open>\<open>std::hex << std::setfill('0') << std::setw(12)\<close> applied to a \<open>uint64_t\<close>.\<close>

definition hex_digit :: "64 word \<Rightarrow> char" where
  "hex_digit d = ''0123456789abcdef'' ! unat d"

definition hex :: "64 word \<Rightarrow> string" where
  "hex v =
     (let ds = dropWhile (\<lambda>ch. ch = CHR ''0'')
                 (map (\<lambda>i. hex_digit (take_bit 4 (drop_bit (4 * i) v))) (rev [0..<16]))
      in if ds = [] then ''0'' else ds)"

definition setw_fill :: "nat \<Rightarrow> char \<Rightarrow> string \<Rightarrow> string" where
  "setw_fill n ch s = replicate (n - length s) ch @ s"

text \<open>
  The listener's callbacks as \<open>hub.run\<close> invokes them. A \<open>DeviceListener\<close> does nothing on
  an event it does not override.
\<close>

fun dispatch :: "'p \<Rightarrow> 'p DataCollector \<Rightarrow> 'p event \<Rightarrow> fault + 'p DataCollector \<times> command list" where
  "dispatch fist c (OrientationData m t quat) =
     and_then (onOrientationData c m t quat) (\<lambda>c'. Inr (c', []))"
| "dispatch fist c (Pose m t pose) = Inr (onPose fist c m t pose)"
| "dispatch fist c Other = Inr (c, [])"

fun dispatch_all ::
  "'p \<Rightarrow> 'p DataCollector \<Rightarrow> 'p event list \<Rightarrow> fault + 'p DataCollector \<times> command list" where
  "dispatch_all fist c [] = Inr (c, [])"
| "dispatch_all fist c (ev # evs) =
     and_then (dispatch fist c ev) (\<lambda>(c', cmds).
     and_then (dispatch_all fist c' evs) (\<lambda>(c'', cmds').
     Inr (c'', cmds @ cmds')))"

text \<open>
  The \<open>try\<close> block up to the main loop (lines 94 to 119): the device found, or the
  exception thrown.
\<close>

definition startup :: "'p platform \<Rightarrow> world \<Rightarrow> (exception + myo) \<times> world" where
  "startup P w =
     (case Hub_ctor P of
        Some msg \<Rightarrow> (Inl (sdk_exception msg), w)
      | None \<Rightarrow>
          (let w1 = w\<lparr>stdout := stdout w @ ''Bike signs.'' @ endl
                                  @ ''Attempting to find a Myo...'' @ endl\<rparr>
           in case waitForAnyMyo P 10000 of
                Inl msg \<Rightarrow> (Inl (sdk_exception msg), w1)
              | Inr None \<Rightarrow> (Inl (runtime_error ''Unable to find a Myo!''), w1)
              | Inr (Some m) \<Rightarrow>
                  (Inr m, w1\<lparr>stdout := stdout w1 @ ''Connected to ''
                                  @ setw_fill 12 CHR ''0'' (hex (macAddress P m))
                                  @ ''.'' @ endl @ endl\<rparr>)))"

text \<open>
  The main loop (lines 122 to 129) has no exit of its own. It stops when an exception
  is thrown or the behaviour becomes undefined; \<open>None\<close> says that it is still running
  after \<open>fuel\<close> iterations.
\<close>

datatype stop = thrown exception | undefined fault

fun main_loop ::
  "'p platform \<Rightarrow> nat \<Rightarrow> nat \<Rightarrow> 'p DataCollector \<Rightarrow> world \<Rightarrow> (stop \<times> world) option" where
  "main_loop P 0 i collector w = None"
| "main_loop P (Suc fuel) i collector w =
     (case run P i (1000 div 20) of
        Inl msg \<Rightarrow> Some (thrown (sdk_exception msg), w)
      | Inr evs \<Rightarrow>
          (case dispatch_all (Pose_fist P) collector evs of
             Inl f \<Rightarrow> Some (undefined f, w)
           | Inr (collector', cmds) \<Rightarrow>
               (let w' = w\<lparr>commands := commands w @ cmds\<rparr>
                in case print (Pose_toString P) collector' of
                     (Inl (written, e), collector'') \<Rightarrow>
                       Some (thrown e, w'\<lparr>stdout := stdout w' @ written\<rparr>)
                   | (Inr line, collector'') \<Rightarrow>
                       main_loop P fuel (Suc i) collector'' (w'\<lparr>stdout := stdout w' @ line\<rparr>))))"

text \<open>The \<open>catch\<close> clause (lines 132 to 137): the exit status and the world it leaves.\<close>

fun what :: "'p platform \<Rightarrow> exception \<Rightarrow> string" where
  "what P (runtime_error msg) = msg"
| "what P length_error = length_error_what P"
| "what P (sdk_exception msg) = msg"

definition catch_exception :: "'p platform \<Rightarrow> exception \<Rightarrow> world \<Rightarrow> int \<times> world" where
  "catch_exception P e w =
     (1, w\<lparr>stderr := stderr w @ ''Error: '' @ what P e @ endl @ ''Press enter to continue.'',
           stdin_ignored := stdin_ignored w + 1\<rparr>)"

text \<open>
  \<open>main\<close>: \<open>Some (Inr (status, w))\<close> when the process returns \<open>status\<close>, \<open>Some (Inl f)\<close>
  when its behaviour is undefined, \<open>None\<close> while the main loop is still running.
\<close>

definition main :: "'p platform \<Rightarrow> nat \<Rightarrow> (fault + int \<times> world) option" where
  "main P fuel =
     (case startup P world_init of
        (Inl e, w) \<Rightarrow> Some (Inr (catch_exception P e w))
      | (Inr m, w) \<Rightarrow>
          (case main_loop P fuel 0 (DataCollector_init (Pose_default P)) w of
             None \<Rightarrow> None
           | Some (thrown e, w') \<Rightarrow> Some (Inr (catch_exception P e w'))
           | Some (undefined f, w') \<Rightarrow> Some (Inl f)))"

section \<open>Vocabulary of the specification\<close>

text \<open>The squared norm of a quaternion.\<close>

definition sum_squares :: "quaternion \<Rightarrow> real" where
  "sum_squares q = qx q * qx q + qy q * qy q + qz q * qz q + qw q * qw q"

text \<open>The three bar lengths of a listener lie within \<open>[0, 18]\<close>.\<close>

definition bar_lengths_ok :: "'p DataCollector \<Rightarrow> bool" where
  "bar_lengths_ok c \<longleftrightarrow>
     0 \<le> roll_w c \<and> roll_w c \<le> 18 \<and> 0 \<le> pitch_w c \<and> pitch_w c \<le> 18
     \<and> 0 \<le> yaw_w c \<and> yaw_w c \<le> 18"

section \<open>Arithmetic of the conversion\<close>

lemma and_then_Inr: "and_then (Inr v) f = f v"
  by (simp add: and_then_def)

lemma and_then_Inl: "and_then (Inl e) f = Inl e"
  by (simp add: and_then_def)

lemma and_then_eq_Inr:
  "and_then r f = Inr b \<longleftrightarrow> (\<exists>a. r = Inr a \<and> f a = Inr b)"
  by (cases r) (simp_all add: and_then_def)

lemma norm_of_Inr: "norm_of quat = Inr (sqrt (qx quat * qx quat + qy quat * qy quat + qz quat * qz quat + qw quat * qw quat))"
proof -
  have "0 \<le> qx quat * qx quat + qy quat * qy quat + qz quat * qz quat + qw quat * qw quat"
    by simp
  then show ?thesis by (simp add: norm_of_def sqrtf_def not_less [symmetric])
qed

lemma normalized_cases:
  "normalized quat =
     (if sum_squares quat = 0 then Inl division_by_zero
      else Inr (Quaternion (qx quat / sqrt (sum_squares quat)) (qy quat / sqrt (sum_squares quat))
                           (qz quat / sqrt (sum_squares quat)) (qw quat / sqrt (sum_squares quat))))"
  by (simp add: normalized_def norm_of_Inr and_then_def fdiv_def sum_squares_def)




lemma normalized_identity: "normalized (Quaternion 0 0 0 1) = Inr (Quaternion 0 0 0 1)"
  by (simp add: normalized_cases sum_squares_def)


lemma to_int_floor:
  assumes "0 \<le> v" and "v \<le> 18"
  shows "to_int v = Inr \<lfloor>v\<rfloor> \<and> 0 \<le> \<lfloor>v\<rfloor> \<and> \<lfloor>v\<rfloor> \<le> 18"
proof -
  have lo: "0 \<le> \<lfloor>v\<rfloor>" using assms(1) by simp
  have hi: "\<lfloor>v\<rfloor> \<le> 18" using assms(2) by (simp add: floor_le_iff)
  from lo hi have "- (2 ^ 31) \<le> \<lfloor>v\<rfloor> \<and> \<lfloor>v\<rfloor> < 2 ^ 31" by simp
  with assms(1) lo hi show ?thesis by (simp add: to_int_def trunc_toward_zero_def)
qed

lemma scale_18:
  fixes q :: real
  shows "0 \<le> q \<Longrightarrow> q \<le> 1 \<Longrightarrow> 0 \<le> q * 18 \<and> q * 18 \<le> 18"
  by simp

lemma rescale_full_turn:
  assumes "- pi \<le> a" and "a \<le> pi"
  shows "0 \<le> (a + pi) / (pi * 2) * 18 \<and> (a + pi) / (pi * 2) * 18 \<le> 18"
proof -
  have p: "0 < pi * 2" using pi_gt_zero by simp
  have "0 \<le> (a + pi) / (pi * 2)" using assms(1) p by simp
  moreover have "(a + pi) / (pi * 2) \<le> 1" using assms(2) p by (simp add: divide_le_eq)
  ultimately show ?thesis by (rule scale_18)
qed

lemma rescale_half_turn:
  assumes "- (pi / 2) \<le> a" and "a \<le> pi / 2"
  shows "0 \<le> (a + pi / 2) / pi * 18 \<and> (a + pi / 2) / pi * 18 \<le> 18"
proof -
  have p: "0 < pi" by (rule pi_gt_zero)
  have "0 \<le> (a + pi / 2) / pi" using assms(1) p by simp
  moreover have "(a + pi / 2) / pi \<le> 1" using assms(2) p by (simp add: divide_le_eq)
  ultimately show ?thesis by (rule scale_18)
qed

lemma trunc_nonneg: "0 \<le> v \<Longrightarrow> trunc_toward_zero v = \<lfloor>v\<rfloor>"
  by (simp add: trunc_toward_zero_def)

lemma roll_bucket_ok:
  assumes "- pi \<le> r" and "r \<le> pi"
  shows "roll_bucket r = Inr (trunc_toward_zero ((r + pi) / (pi * 2) * 18))
         \<and> 0 \<le> trunc_toward_zero ((r + pi) / (pi * 2) * 18)
         \<and> trunc_toward_zero ((r + pi) / (pi * 2) * 18) \<le> 18"
proof -
  from rescale_full_turn [OF assms]
  have v: "0 \<le> (r + pi) / (pi * 2) * 18" "(r + pi) / (pi * 2) * 18 \<le> 18" by simp_all
  from to_int_floor [OF v] show ?thesis
    by (simp only: roll_bucket_def trunc_nonneg [OF v(1)])
qed

lemma yaw_bucket_ok:
  assumes "- pi \<le> y" and "y \<le> pi"
  shows "yaw_bucket y = Inr (trunc_toward_zero ((y + pi) / (pi * 2) * 18))
         \<and> 0 \<le> trunc_toward_zero ((y + pi) / (pi * 2) * 18)
         \<and> trunc_toward_zero ((y + pi) / (pi * 2) * 18) \<le> 18"
proof -
  from rescale_full_turn [OF assms]
  have v: "0 \<le> (y + pi) / (pi * 2) * 18" "(y + pi) / (pi * 2) * 18 \<le> 18" by simp_all
  from to_int_floor [OF v] show ?thesis
    by (simp only: yaw_bucket_def trunc_nonneg [OF v(1)])
qed

lemma pitch_bucket_ok:
  assumes "- (pi / 2) \<le> p" and "p \<le> pi / 2"
  shows "pitch_bucket p = Inr (trunc_toward_zero ((p + pi / 2) / pi * 18))
         \<and> 0 \<le> trunc_toward_zero ((p + pi / 2) / pi * 18)
         \<and> trunc_toward_zero ((p + pi / 2) / pi * 18) \<le> 18"
proof -
  from rescale_half_turn [OF assms]
  have v: "0 \<le> (p + pi / 2) / pi * 18" "(p + pi / 2) / pi * 18 \<le> 18" by simp_all
  from to_int_floor [OF v] show ?thesis
    by (simp only: pitch_bucket_def trunc_nonneg [OF v(1)])
qed

lemma store_bar_lengths_ok:
  assumes "- pi \<le> r" and "r \<le> pi" and "- (pi / 2) \<le> p" and "p \<le> pi / 2"
    and "- pi \<le> y" and "y \<le> pi"
  shows "store_bar_lengths c r p y =
           Inr (c\<lparr>roll_w := trunc_toward_zero ((r + pi) / (pi * 2) * 18),
                  pitch_w := trunc_toward_zero ((p + pi / 2) / pi * 18),
                  yaw_w := trunc_toward_zero ((y + pi) / (pi * 2) * 18)\<rparr>)"
  by (simp only: store_bar_lengths_def and_then_Inr
        roll_bucket_ok [OF assms(1,2), THEN conjunct1]
        pitch_bucket_ok [OF assms(3,4), THEN conjunct1]
        yaw_bucket_ok [OF assms(5,6), THEN conjunct1])

lemma onOrientationData_identity:
  "onOrientationData c m t (Quaternion 0 0 0 1) = Inr (c\<lparr>roll_w := 9, pitch_w := 9, yaw_w := 9\<rparr>)"
proof -
  have r: "roll (Quaternion 0 0 0 1) = 0" by (simp add: roll_def atan2f_def)
  have p: "pitch (Quaternion 0 0 0 1) = Inr 0" by (simp add: pitch_def asinf_def)
  have y: "yaw (Quaternion 0 0 0 1) = 0" by (simp add: yaw_def atan2f_def)
  have b: "roll_bucket 0 = Inr 9" "pitch_bucket 0 = Inr 9" "yaw_bucket 0 = Inr 9"
    by (simp_all add: roll_bucket_def pitch_bucket_def yaw_bucket_def to_int_def
          trunc_toward_zero_def)
  show ?thesis
    by (simp only: onOrientationData_def store_bar_lengths_def normalized_identity r p y b
          and_then_Inr)
qed

lemma onOrientationData_zero:
  "onOrientationData c m t (Quaternion 0 0 0 0) = Inl division_by_zero"
  by (simp add: onOrientationData_def normalized_cases sum_squares_def and_then_Inl)

lemma onOrientationData_writes:
  assumes "onOrientationData c m t quat = Inr c'"
  shows "\<exists>rw pw yw. c' = c\<lparr>roll_w := rw, pitch_w := pw, yaw_w := yw\<rparr>"
  using assms
  by (auto simp: onOrientationData_def store_bar_lengths_def and_then_eq_Inr)

lemma bar_lengths_of_quaternion:
  "map_sum id (\<lambda>d. (roll_w d, pitch_w d, yaw_w d)) (onOrientationData c m t quat)
     = and_then (normalized quat) (\<lambda>n.
       and_then (pitch n) (\<lambda>p.
       and_then (roll_bucket (roll n)) (\<lambda>rw.
       and_then (pitch_bucket p) (\<lambda>pw.
       and_then (yaw_bucket (yaw n)) (\<lambda>yw. Inr (rw, pw, yw))))))"
  by (simp add: onOrientationData_def store_bar_lengths_def and_then_def split: sum.splits)

section \<open>The printed line\<close>

lemma string_fill_small:
  assumes "0 \<le> k" and "k \<le> 18"
  shows "string_fill (word_of_int k) ch = Inr (replicate (nat k) ch)"
proof -
  have "uint (word_of_int k :: 64 word) = k mod 2 ^ 64"
    by (simp add: uint_word_of_int)
  also have "\<dots> = k" using assms by simp
  finally have u: "uint (word_of_int k :: 64 word) = k" .
  then have n: "unat (word_of_int k :: 64 word) = nat k" by (simp add: unat_eq_nat_uint)
  have "(word_of_int k :: 64 word) \<le> 0x7FFFFFFFFFFFFFFF"
    using assms by (simp add: word_le_def u)
  then show ?thesis by (simp add: string_fill_def n)
qed

lemma string_fill_pad:
  assumes "n \<le> 16"
  shows "string_fill (16 - of_nat n) ch = Inr (replicate (16 - n) ch)"
proof -
  have e: "(16 :: 64 word) - of_nat n = word_of_int (int (16 - n))" using assms by simp
  have "uint (word_of_int (int (16 - n)) :: 64 word) = int (16 - n) mod 2 ^ 64"
    by (simp only: uint_word_of_int) simp
  also have "\<dots> = int (16 - n)" by simp
  finally have u: "uint ((16 :: 64 word) - of_nat n) = int (16 - n)" by (simp only: e)
  then have n: "unat ((16 :: 64 word) - of_nat n) = 16 - n" by (simp add: unat_eq_nat_uint)
  have "(16 :: 64 word) - of_nat n \<le> 0x7FFFFFFFFFFFFFFF"
    by (simp add: word_le_def u)
  then show ?thesis by (simp add: string_fill_def n)
qed

lemma string_fill_wrapped:
  assumes "16 < n" and "n < 2 ^ 63"
  shows "string_fill (16 - of_nat n) ch = Inl length_error"
proof -
  have "(16 :: 64 word) - of_nat n = word_of_int (16 - int n)" by simp
  then have "uint ((16 :: 64 word) - of_nat n) = (16 - int n) mod 2 ^ 64"
    by (simp only: uint_word_of_int) simp
  also have "\<dots> = (16 - int n + 2 ^ 64) mod 2 ^ 64"
    by (simp only: mod_add_self2)
  also have "\<dots> = 16 - int n + 2 ^ 64"
    using assms by (intro mod_pos_pos_trivial) simp_all
  finally have "2 ^ 63 \<le> uint ((16 :: 64 word) - of_nat n)" using assms by simp
  then have "\<not> (16 :: 64 word) - of_nat n \<le> 0x7FFFFFFFFFFFFFFF"
    by (simp add: word_le_def)
  then show ?thesis by (simp add: string_fill_def)
qed

lemma write_fill_Inr:
  "string_fill count ch = Inr s \<Longrightarrow> write_fill out count ch rest = rest (out @ s)"
  by (simp add: write_fill_def)

lemma write_fill_Inl:
  "string_fill count ch = Inl e \<Longrightarrow> write_fill out count ch rest = Inl (out, e)"
  by (simp add: write_fill_def)

lemma write_fill_eq_Inr:
  "write_fill out count ch rest = Inr line
     \<longleftrightarrow> (\<exists>s. string_fill count ch = Inr s \<and> rest (out @ s) = Inr line)"
  by (cases "string_fill count ch") (simp_all add: write_fill_def)

lemma print_keeps_state: "snd (print toString c) = c"
  by (simp add: print_def Let_def)

lemma print_line:
  assumes "bar_lengths_ok c" and "length (toString (currentPose c)) \<le> 16"
  shows "fst (print toString c) =
           Inr ([CHR 0x0D]
                @ ''['' @ replicate (nat (roll_w c)) CHR ''*''
                        @ replicate (nat (18 - roll_w c)) CHR '' '' @ '']''
                @ ''['' @ replicate (nat (pitch_w c)) CHR ''*''
                        @ replicate (nat (18 - pitch_w c)) CHR '' '' @ '']''
                @ ''['' @ replicate (nat (yaw_w c)) CHR ''*''
                        @ replicate (nat (18 - yaw_w c)) CHR '' '' @ '']''
                @ ''['' @ toString (currentPose c)
                        @ replicate (16 - length (toString (currentPose c))) CHR '' '' @ '']'')"
proof -
  from assms(1) have r: "0 \<le> roll_w c" "roll_w c \<le> 18" "0 \<le> 18 - roll_w c" "18 - roll_w c \<le> 18"
    and p: "0 \<le> pitch_w c" "pitch_w c \<le> 18" "0 \<le> 18 - pitch_w c" "18 - pitch_w c \<le> 18"
    and y: "0 \<le> yaw_w c" "yaw_w c \<le> 18" "0 \<le> 18 - yaw_w c" "18 - yaw_w c \<le> 18"
    by (simp_all add: bar_lengths_ok_def)
  show ?thesis
    by (simp only: print_def Let_def fst_conv
          write_fill_Inr [OF string_fill_small [OF r(1,2)]]
          write_fill_Inr [OF string_fill_small [OF r(3,4)]]
          write_fill_Inr [OF string_fill_small [OF p(1,2)]]
          write_fill_Inr [OF string_fill_small [OF p(3,4)]]
          write_fill_Inr [OF string_fill_small [OF y(1,2)]]
          write_fill_Inr [OF string_fill_small [OF y(3,4)]]
          write_fill_Inr [OF string_fill_pad [OF assms(2)]]
          append_assoc)
qed

text \<open>
  Two counts \<open>r\<close> and \<open>18 - r\<close> that the string constructor both accepts add up to 18
  characters, whatever the \<open>int\<close> \<open>r\<close>.
\<close>

lemma gauge_fill_lengths:
  assumes "string_fill (word_of_int r) a = Inr s1"
    and "string_fill (word_of_int (18 - r)) b = Inr s2"
  shows "length s1 + length s2 = 18"
proof -
  define w1 :: "64 word" where "w1 = word_of_int r"
  define w2 :: "64 word" where "w2 = word_of_int (18 - r)"
  from assms have le1: "w1 \<le> 0x7FFFFFFFFFFFFFFF" and s1: "s1 = replicate (unat w1) a"
    and le2: "w2 \<le> 0x7FFFFFFFFFFFFFFF" and s2: "s2 = replicate (unat w2) b"
    by (auto simp: string_fill_def w1_def w2_def split: if_splits)
  have u1: "uint w1 \<le> 9223372036854775807" using le1 by (simp add: word_le_def)
  have u2: "uint w2 \<le> 9223372036854775807" using le2 by (simp add: word_le_def)
  have "w1 + w2 = 18" by (simp add: w1_def w2_def)
  moreover have "uint (w1 + w2) = uint w1 + uint w2"
    using u1 u2 by (intro iffD1 [OF uint_add_lem]) simp
  ultimately have sum: "uint w1 + uint w2 = 18" by simp
  have "unat w1 + unat w2 = nat (uint w1) + nat (uint w2)" by (simp only: unat_eq_nat_uint)
  also have "\<dots> = nat (uint w1 + uint w2)" by (rule nat_add_distrib [symmetric]) simp_all
  also have "\<dots> = 18" by (simp only: sum)
  finally show ?thesis by (simp add: s1 s2)
qed

lemma print_completed:
  assumes "length (toString (currentPose c)) \<le> 16" and "fst (print toString c) = Inr line"
  shows "\<exists>gauges. line = gauges @ ''['' @ toString (currentPose c)
                       @ replicate (16 - length (toString (currentPose c))) CHR '' '' @ '']''
                 \<and> length gauges = 61"
proof -
  from assms(2) obtain r1 r2 p1 p2 y1 y2 pad
    where r: "string_fill (word_of_int (roll_w c)) CHR ''*'' = Inr r1"
             "string_fill (word_of_int (18 - roll_w c)) CHR '' '' = Inr r2"
      and p: "string_fill (word_of_int (pitch_w c)) CHR ''*'' = Inr p1"
             "string_fill (word_of_int (18 - pitch_w c)) CHR '' '' = Inr p2"
      and y: "string_fill (word_of_int (yaw_w c)) CHR ''*'' = Inr y1"
             "string_fill (word_of_int (18 - yaw_w c)) CHR '' '' = Inr y2"
      and pad: "string_fill (16 - of_nat (length (toString (currentPose c)))) CHR '' '' = Inr pad"
      and line: "[CHR 0x0D] @ ''['' @ r1 @ r2 @ '']'' @ ''['' @ p1 @ p2 @ '']'' @ ''['' @ y1 @ y2
                   @ '']'' @ ''['' @ toString (currentPose c) @ pad @ '']'' = line"
    unfolding print_def Let_def fst_conv write_fill_eq_Inr append_assoc sum.inject by blast
  define gauges where
    "gauges = [CHR 0x0D] @ ''['' @ r1 @ r2 @ '']'' @ ''['' @ p1 @ p2 @ '']'' @ ''['' @ y1 @ y2 @ '']''"
  from pad string_fill_pad [OF assms(1), of "CHR '' ''"]
  have pad': "pad = replicate (16 - length (toString (currentPose c))) CHR '' ''" by simp
  have "line = gauges @ ''['' @ toString (currentPose c)
                 @ replicate (16 - length (toString (currentPose c))) CHR '' '' @ '']''"
    by (simp add: line [symmetric] gauges_def pad')
  moreover have "length gauges = 61"
    using gauge_fill_lengths [OF r] gauge_fill_lengths [OF p] gauge_fill_lengths [OF y]
    by (simp add: gauges_def)
  ultimately show ?thesis by blast
qed

lemma print_long_name_written:
  assumes "bar_lengths_ok c" and "16 < length (toString (currentPose c))"
    and "length (toString (currentPose c)) < 2 ^ 63"
  shows "fst (print toString c) =
           Inl ([CHR 0x0D]
                @ ''['' @ replicate (nat (roll_w c)) CHR ''*''
                        @ replicate (nat (18 - roll_w c)) CHR '' '' @ '']''
                @ ''['' @ replicate (nat (pitch_w c)) CHR ''*''
                        @ replicate (nat (18 - pitch_w c)) CHR '' '' @ '']''
                @ ''['' @ replicate (nat (yaw_w c)) CHR ''*''
                        @ replicate (nat (18 - yaw_w c)) CHR '' '' @ '']''
                @ ''['' @ toString (currentPose c),
                length_error)"
proof -
  from assms(1) have r: "0 \<le> roll_w c" "roll_w c \<le> 18" "0 \<le> 18 - roll_w c" "18 - roll_w c \<le> 18"
    and p: "0 \<le> pitch_w c" "pitch_w c \<le> 18" "0 \<le> 18 - pitch_w c" "18 - pitch_w c \<le> 18"
    and y: "0 \<le> yaw_w c" "yaw_w c \<le> 18" "0 \<le> 18 - yaw_w c" "18 - yaw_w c \<le> 18"
    by (simp_all add: bar_lengths_ok_def)
  show ?thesis
    by (simp only: print_def Let_def fst_conv
          write_fill_Inr [OF string_fill_small [OF r(1,2)]]
          write_fill_Inr [OF string_fill_small [OF r(3,4)]]
          write_fill_Inr [OF string_fill_small [OF p(1,2)]]
          write_fill_Inr [OF string_fill_small [OF p(3,4)]]
          write_fill_Inr [OF string_fill_small [OF y(1,2)]]
          write_fill_Inr [OF string_fill_small [OF y(3,4)]]
          write_fill_Inl [OF string_fill_wrapped [OF assms(2,3)]]
          append_assoc)
qed

section \<open>Effects of the callbacks and of start-up\<close>

lemma onPose_commands:
  "snd (onPose fist c m t pose)
     = (if pose = fist \<and> pitch_w c < 5 then [vibrate m VibrationMedium] else [])"
  by (simp add: onPose_def Let_def)

lemma startup_cases:
  "fst (startup P w) =
     (case Hub_ctor P of
        Some msg \<Rightarrow> Inl (sdk_exception msg)
      | None \<Rightarrow>
          (case waitForAnyMyo P 10000 of
             Inl msg \<Rightarrow> Inl (sdk_exception msg)
           | Inr None \<Rightarrow> Inl (runtime_error ''Unable to find a Myo!'')
           | Inr (Some m) \<Rightarrow> Inr m))"
  by (simp add: startup_def Let_def split: option.splits sum.splits)

lemma startup_no_device:
  assumes "Hub_ctor P = None" and "waitForAnyMyo P 10000 = Inr None"
  shows "startup P w =
           (Inl (runtime_error ''Unable to find a Myo!''),
            w\<lparr>stdout := stdout w @ ''Bike signs.'' @ endl @ ''Attempting to find a Myo...'' @ endl\<rparr>)"
  by (simp add: startup_def assms)

section \<open>The conversion\<close>

text \<open>
  C3. For the identity quaternion \<open>(0, 0, 0, 1)\<close> the normalized quaternion is the same,
  roll, pitch and yaw are all 0, each of the three rescales gives 9, and the callback
  stores 9 in \<open>roll_w\<close>, \<open>pitch_w\<close> and \<open>yaw_w\<close>.
\<close>

theorem identity_quaternion_buckets:
  "normalized (Quaternion 0 0 0 1) = Inr (Quaternion 0 0 0 1)
   \<and> roll (Quaternion 0 0 0 1) = 0
   \<and> pitch (Quaternion 0 0 0 1) = Inr 0
   \<and> yaw (Quaternion 0 0 0 1) = 0
   \<and> roll_bucket 0 = Inr 9 \<and> pitch_bucket 0 = Inr 9 \<and> yaw_bucket 0 = Inr 9
   \<and> onOrientationData c m t (Quaternion 0 0 0 1) = Inr (c\<lparr>roll_w := 9, pitch_w := 9, yaw_w := 9\<rparr>)"
proof -
  have r: "roll (Quaternion 0 0 0 1) = 0" by (simp add: roll_def atan2f_def)
  have p: "pitch (Quaternion 0 0 0 1) = Inr 0" by (simp add: pitch_def asinf_def)
  have y: "yaw (Quaternion 0 0 0 1) = 0" by (simp add: yaw_def atan2f_def)
  have rb: "roll_bucket 0 = Inr 9"
    by (simp add: roll_bucket_def to_int_def trunc_toward_zero_def)
  have pb: "pitch_bucket 0 = Inr 9"
    by (simp add: pitch_bucket_def to_int_def trunc_toward_zero_def)
  have yb: "yaw_bucket 0 = Inr 9"
    by (simp add: yaw_bucket_def to_int_def trunc_toward_zero_def)
  have "onOrientationData c m t (Quaternion 0 0 0 1) = Inr (c\<lparr>roll_w := 9, pitch_w := 9, yaw_w := 9\<rparr>)"
    by (simp only: onOrientationData_def store_bar_lengths_def normalized_identity r p y rb pb yb
          and_then_Inr)
  with normalized_identity r p y rb pb yb show ?thesis by simp
qed



text \<open>
  C6, as stated, fails: for the quaternion \<open>(0, 0, 0, 0)\<close> the computed norm is 0 and the
  normalization divides by it; no bar length is computed.
\<close>

theorem zero_norm_divides_by_zero:
  "onOrientationData (DataCollector_init ()) 0 0 (Quaternion 0 0 0 0) = Inl division_by_zero"
  by (simp add: onOrientationData_def normalized_cases sum_squares_def and_then_Inl)

text \<open>
  C6, amended. The conversion depends on the input quaternion only: whether it
  completes or which fault stops it, and the three bar lengths it stores, are the same
  whatever the listener's state, the device and the time stamp. It is not free of
  failure: for the quaternion \<open>(0, 0, 0, 0)\<close> it divides by zero, for every listener,
  device and time stamp. (Which other quaternions it completes on is not stated.)
\<close>

theorem conversion_depends_on_quaternion_only:
  "onOrientationData c m t (Quaternion 0 0 0 0) = Inl division_by_zero
   \<and> map_sum id (\<lambda>d. (roll_w d, pitch_w d, yaw_w d)) (onOrientationData c m t quat)
       = map_sum id (\<lambda>d. (roll_w d, pitch_w d, yaw_w d)) (onOrientationData c' m' t' quat)"
  by (simp only: onOrientationData_zero bar_lengths_of_quaternion simp_thms)

text \<open>
  C2, as stated, fails: the range does not hold after every operation. When the
  quaternion \<open>(0, 0, 0, 0)\<close> is delivered to a new listener the conversion divides by
  zero, and the three fields have no defined value afterwards.
\<close>

theorem zero_norm_event_leaves_no_bar_lengths:
  "dispatch_all () (DataCollector_init ()) [OrientationData 0 0 (Quaternion 0 0 0 0)]
     = Inl division_by_zero"
  by (simp add: onOrientationData_zero and_then_Inl)

text \<open>
  C2, amended. For every roll and yaw within \<open>[-pi, pi]\<close> and every pitch within
  \<open>[-pi/2, pi/2]\<close> the bar length computed from the angle lies within \<open>[0, 18]\<close>, and
  from three such angles the three assignments store bar lengths within \<open>[0, 18]\<close> in the
  fields \<open>roll_w\<close>, \<open>pitch_w\<close> and \<open>yaw_w\<close>. The three fields are 0 in a new listener, and
  only the conversion writes them: \<open>onPose\<close> and \<open>print\<close> leave them unchanged. (Nothing is
  stated about the fields after an orientation callback whose angles are not numbers
  within these ranges.)
\<close>

theorem bar_lengths_of_angles_in_range:
  "(- pi \<le> r \<and> r \<le> pi \<longrightarrow> (\<exists>k. roll_bucket r = Inr k \<and> 0 \<le> k \<and> k \<le> 18))
   \<and> (- (pi / 2) \<le> p \<and> p \<le> pi / 2 \<longrightarrow> (\<exists>k. pitch_bucket p = Inr k \<and> 0 \<le> k \<and> k \<le> 18))
   \<and> (- pi \<le> y \<and> y \<le> pi \<longrightarrow> (\<exists>k. yaw_bucket y = Inr k \<and> 0 \<le> k \<and> k \<le> 18))
   \<and> (- pi \<le> r \<and> r \<le> pi \<and> - (pi / 2) \<le> p \<and> p \<le> pi / 2 \<and> - pi \<le> y \<and> y \<le> pi \<longrightarrow>
        (\<exists>c'. store_bar_lengths c r p y = Inr c' \<and> bar_lengths_ok c'))
   \<and> roll_w (DataCollector_init default_pose) = 0
   \<and> pitch_w (DataCollector_init default_pose) = 0
   \<and> yaw_w (DataCollector_init default_pose) = 0
   \<and> roll_w (fst (onPose fist c m t pose)) = roll_w c
   \<and> pitch_w (fst (onPose fist c m t pose)) = pitch_w c
   \<and> yaw_w (fst (onPose fist c m t pose)) = yaw_w c
   \<and> snd (print toString c) = c"
proof -
  have 1: "\<exists>k. roll_bucket r = Inr k \<and> 0 \<le> k \<and> k \<le> 18" if "- pi \<le> r \<and> r \<le> pi"
    using roll_bucket_ok [of r] that by blast
  have 2: "\<exists>k. pitch_bucket p = Inr k \<and> 0 \<le> k \<and> k \<le> 18" if "- (pi / 2) \<le> p \<and> p \<le> pi / 2"
    using pitch_bucket_ok [of p] that by blast
  have 3: "\<exists>k. yaw_bucket y = Inr k \<and> 0 \<le> k \<and> k \<le> 18" if "- pi \<le> y \<and> y \<le> pi"
    using yaw_bucket_ok [of y] that by blast
  have 4: "\<exists>c'. store_bar_lengths c r p y = Inr c' \<and> bar_lengths_ok c'"
    if h: "- pi \<le> r \<and> r \<le> pi \<and> - (pi / 2) \<le> p \<and> p \<le> pi / 2 \<and> - pi \<le> y \<and> y \<le> pi"
  proof -
    from h have a: "- pi \<le> r" "r \<le> pi" "- (pi / 2) \<le> p" "p \<le> pi / 2" "- pi \<le> y" "y \<le> pi"
      by simp_all
    show ?thesis
      using roll_bucket_ok [OF a(1,2)] pitch_bucket_ok [OF a(3,4)] yaw_bucket_ok [OF a(5,6)]
      by (simp add: store_bar_lengths_ok [OF a] bar_lengths_ok_def)
  qed
  from 1 2 3 4 show ?thesis
    by (simp add: DataCollector_init_def onPose_def Let_def print_keeps_state)
qed

text \<open>
  The theorem at the angles \<open>pi\<close>, \<open>-pi/2\<close> and 0, whose bar lengths are 18, 0 and 9,
  and at a listener with the bar lengths 1, 2 and 3.
\<close>

theorem bar_lengths_of_angles_in_range_witness:
  "- pi \<le> pi \<and> pi \<le> pi \<and> roll_bucket pi = Inr 18
   \<and> - (pi / 2) \<le> - (pi / 2) \<and> - (pi / 2) \<le> pi / 2 \<and> pitch_bucket (- (pi / 2)) = Inr 0
   \<and> - pi \<le> 0 \<and> 0 \<le> pi \<and> yaw_bucket 0 = Inr 9
   \<and> store_bar_lengths \<lparr>roll_w = 1, pitch_w = 2, yaw_w = 3, currentPose = ()\<rparr> pi (- (pi / 2)) 0
       = Inr \<lparr>roll_w = 18, pitch_w = 0, yaw_w = 9, currentPose = ()\<rparr>
   \<and> bar_lengths_ok \<lparr>roll_w = 18, pitch_w = 0, yaw_w = 9, currentPose = ()\<rparr>"
proof -
  have b: "roll_bucket pi = Inr 18" "pitch_bucket (- (pi / 2)) = Inr 0" "yaw_bucket 0 = Inr 9"
    by (simp_all add: roll_bucket_def pitch_bucket_def yaw_bucket_def to_int_def trunc_toward_zero_def)
  have s: "store_bar_lengths \<lparr>roll_w = 1, pitch_w = 2, yaw_w = 3, currentPose = ()\<rparr> pi (- (pi / 2)) 0
       = Inr \<lparr>roll_w = 18, pitch_w = 0, yaw_w = 9, currentPose = ()\<rparr>"
    by (simp add: store_bar_lengths_def b and_then_Inr)
  from b s
    bar_lengths_of_angles_in_range [where r = pi and p = "- (pi / 2)" and y = 0
      and c = "\<lparr>roll_w = 1, pitch_w = 2, yaw_w = 3, currentPose = ()\<rparr>"
      and default_pose = "()" and fist = "()" and pose = "()" and m = 0 and t = 0
      and toString = "\<lambda>pose. ''rest''"]
  show ?thesis by simp
qed

section \<open>The display\<close>

text \<open>
  C4. When the three bar lengths lie within \<open>[0, 18]\<close> (and the pose name fits its
  field, so that the line is printed), the line \<open>print\<close> writes is a carriage return
  followed by three gauges, one for each of \<open>roll_w\<close>, \<open>pitch_w\<close> and \<open>yaw_w\<close>, and the
  pose field. The gauge of a bar length \<open>b\<close> is, between \<open>[\<close> and \<open>]\<close>, exactly \<open>b\<close>
  asterisks followed by exactly \<open>18 - b\<close> spaces.
\<close>

theorem gauge_rendering:
  assumes "bar_lengths_ok c" and "length (toString (currentPose c)) \<le> 16"
  shows "fst (print toString c) =
           Inr ([CHR 0x0D]
                @ ''['' @ replicate (nat (roll_w c)) CHR ''*''
                        @ replicate (nat (18 - roll_w c)) CHR '' '' @ '']''
                @ ''['' @ replicate (nat (pitch_w c)) CHR ''*''
                        @ replicate (nat (18 - pitch_w c)) CHR '' '' @ '']''
                @ ''['' @ replicate (nat (yaw_w c)) CHR ''*''
                        @ replicate (nat (18 - yaw_w c)) CHR '' '' @ '']''
                @ ''['' @ toString (currentPose c)
                        @ replicate (16 - length (toString (currentPose c))) CHR '' '' @ '']'')"
  using assms by (rule print_line)

text \<open>The theorem at the bar lengths 3, 18 and 0 and the pose name \<open>fist\<close>.\<close>

theorem gauge_rendering_witness:
  "bar_lengths_ok \<lparr>roll_w = 3, pitch_w = 18, yaw_w = 0, currentPose = ''fist''\<rparr>
   \<and> length (id (currentPose \<lparr>roll_w = 3, pitch_w = 18, yaw_w = 0, currentPose = ''fist''\<rparr>)) \<le> 16
   \<and> fst (print id \<lparr>roll_w = 3, pitch_w = 18, yaw_w = 0, currentPose = ''fist''\<rparr>)
       = Inr ([CHR 0x0D] @ ''[***               ]'' @ ''[******************]''
              @ ''[                  ]'' @ ''[fist            ]'')"
proof -
  have a: "bar_lengths_ok \<lparr>roll_w = 3, pitch_w = 18, yaw_w = 0, currentPose = ''fist''\<rparr>"
    by (simp add: bar_lengths_ok_def)
  have b: "length (id (currentPose \<lparr>roll_w = 3, pitch_w = 18, yaw_w = 0, currentPose = ''fist''\<rparr>)) \<le> 16"
    by simp
  have n: "replicate 3 x = [x, x, x]" "replicate 12 x = [x, x, x, x, x, x, x, x, x, x, x, x]"
    "replicate 15 x = [x, x, x, x, x, x, x, x, x, x, x, x, x, x, x]"
    "replicate 18 x = [x, x, x, x, x, x, x, x, x, x, x, x, x, x, x, x, x, x]" for x :: char
    by (simp_all add: numeral_eq_Suc)
  from gauge_rendering [where toString = id
      and c = "\<lparr>roll_w = 3, pitch_w = 18, yaw_w = 0, currentPose = ''fist''\<rparr>"] a b
  show ?thesis by (simp add: n)
qed

text \<open>
  C5, as stated, fails: with a pose name of 17 characters the field is neither padded
  nor truncated to 16 characters. After the gauges \<open>print\<close> writes \<open>[\<close> and all 17
  characters of the name, and the line ends there, without its closing bracket.
\<close>

theorem long_pose_name_written_in_full:
  "fst (print id \<lparr>roll_w = 0, pitch_w = 0, yaw_w = 0, currentPose = ''seventeen_letters''\<rparr>)
     = Inl ([CHR 0x0D] @ ''[                  ]'' @ ''[                  ]''
            @ ''[                  ]'' @ ''[seventeen_letters'',
            length_error)"
proof -
  have a: "bar_lengths_ok \<lparr>roll_w = 0, pitch_w = 0, yaw_w = 0, currentPose = ''seventeen_letters''\<rparr>"
    by (simp add: bar_lengths_ok_def)
  have n: "replicate 18 x = [x, x, x, x, x, x, x, x, x, x, x, x, x, x, x, x, x, x]" for x :: char
    by (simp add: numeral_eq_Suc)
  from a print_long_name_written [where toString = id
      and c = "\<lparr>roll_w = 0, pitch_w = 0, yaw_w = 0, currentPose = ''seventeen_letters''\<rparr>"]
  show ?thesis by (simp add: n)
qed

text \<open>
  C5, amended. For every pose whose name has at most 16 characters, whenever \<open>print\<close>
  completes its line, the line ends with the pose field: between \<open>[\<close> and \<open>]\<close> the name
  followed by spaces up to a width of exactly 16 characters, after the 61 characters
  of the carriage return and the three gauges. The name is padded, never truncated.
\<close>

theorem pose_field_padded:
  assumes "length (toString (currentPose c)) \<le> 16" and "fst (print toString c) = Inr line"
  shows "(\<exists>gauges. line = gauges @ ''['' @ toString (currentPose c)
                        @ replicate (16 - length (toString (currentPose c))) CHR '' '' @ '']''
                  \<and> length gauges = 61)
         \<and> length (toString (currentPose c)
                    @ replicate (16 - length (toString (currentPose c))) CHR '' '') = 16"
  using print_completed [where toString = toString and c = c and line = line] assms by simp

text \<open>
  The theorem at the pose name \<open>fingersSpread\<close> (13 characters, padded with 3 spaces)
  and the bar lengths 9, 9 and 9.
\<close>

theorem pose_field_padded_witness:
  "length (id (currentPose \<lparr>roll_w = 9, pitch_w = 9, yaw_w = 9, currentPose = ''fingersSpread''\<rparr>)) \<le> 16
   \<and> fst (print id \<lparr>roll_w = 9, pitch_w = 9, yaw_w = 9, currentPose = ''fingersSpread''\<rparr>)
       = Inr ([CHR 0x0D] @ ''[*********         ]'' @ ''[*********         ]''
              @ ''[*********         ]'' @ ''[fingersSpread   ]'')
   \<and> (\<exists>gauges. [CHR 0x0D] @ ''[*********         ]'' @ ''[*********         ]''
                  @ ''[*********         ]'' @ ''[fingersSpread   ]''
                  = gauges @ ''[fingersSpread   ]''
               \<and> length gauges = 61)"
proof -
  have a: "bar_lengths_ok \<lparr>roll_w = 9, pitch_w = 9, yaw_w = 9, currentPose = ''fingersSpread''\<rparr>"
    by (simp add: bar_lengths_ok_def)
  have n: "replicate 3 x = [x, x, x]" "replicate 9 x = [x, x, x, x, x, x, x, x, x]" for x :: char
    by (simp_all add: numeral_eq_Suc)
  have l: "fst (print id \<lparr>roll_w = 9, pitch_w = 9, yaw_w = 9, currentPose = ''fingersSpread''\<rparr>)
       = Inr ([CHR 0x0D] @ ''[*********         ]'' @ ''[*********         ]''
              @ ''[*********         ]'' @ ''[fingersSpread   ]'')"
    using a print_line [where toString = id
      and c = "\<lparr>roll_w = 9, pitch_w = 9, yaw_w = 9, currentPose = ''fingersSpread''\<rparr>"]
    by (simp add: n)
  from l pose_field_padded [where toString = id
      and c = "\<lparr>roll_w = 9, pitch_w = 9, yaw_w = 9, currentPose = ''fingersSpread''\<rparr>"
      and line = "[CHR 0x0D] @ ''[*********         ]'' @ ''[*********         ]''
              @ ''[*********         ]'' @ ''[fingersSpread   ]''"]
  show ?thesis by (simp add: n)
qed

section \<open>The callbacks\<close>

text \<open>
  C9. A vibration is issued exactly when a pose event delivers the fist pose while the
  stored \<open>pitch_w\<close> is below 5: an event delivered to the listener issues a command if
  and only if it is such a pose event, and the command is then the medium vibration
  of the event's device. \<open>onPose\<close> issues that one command under that condition and
  none otherwise; an orientation event or any other event issues none, and neither
  do start-up and the \<open>catch\<close> clause (\<open>print\<close> has no access to the device).
\<close>

theorem vibration_iff_fist_below_5:
  "(dispatch fist c ev = Inr (c', cmds) \<longrightarrow>
      (cmds \<noteq> [] \<longleftrightarrow> (\<exists>m t. ev = Pose m t fist \<and> pitch_w c < 5))
      \<and> (\<forall>m t. ev = Pose m t fist \<and> pitch_w c < 5 \<longrightarrow> cmds = [vibrate m VibrationMedium]))
   \<and> snd (onPose fist c m t pose)
       = (if pose = fist \<and> pitch_w c < 5 then [vibrate m VibrationMedium] else [])
   \<and> commands (snd (startup P w)) = commands w
   \<and> commands (snd (catch_exception P e w)) = commands w"
proof -
  have d: "(cmds \<noteq> [] \<longleftrightarrow> (\<exists>m t. ev = Pose m t fist \<and> pitch_w c < 5))
           \<and> (\<forall>m t. ev = Pose m t fist \<and> pitch_w c < 5 \<longrightarrow> cmds = [vibrate m VibrationMedium])"
    if h: "dispatch fist c ev = Inr (c', cmds)"
  proof (cases ev)
    case (OrientationData m t quat)
    with h show ?thesis by (auto simp: and_then_eq_Inr)
  next
    case (Pose m t pose)
    with h have "cmds = snd (onPose fist c m t pose)" by auto
    with Pose show ?thesis by (simp add: onPose_commands)
  next
    case Other
    with h show ?thesis by simp
  qed
  have s: "commands (snd (startup P w)) = commands w"
    by (simp add: startup_def Let_def split: option.splits sum.splits)
  have k: "commands (snd (catch_exception P e w)) = commands w"
    by (simp add: catch_exception_def)
  from d s k show ?thesis by (simp add: onPose_commands)
qed

text \<open>
  The theorem at a fist pose delivered with \<open>pitch_w = 4\<close>, which vibrates; the same
  pose with \<open>pitch_w = 5\<close> and another pose with \<open>pitch_w = 4\<close> do not.
\<close>

theorem vibration_iff_fist_below_5_witness:
  "dispatch (1 :: nat) \<lparr>roll_w = 9, pitch_w = 4, yaw_w = 9, currentPose = 0\<rparr> (Pose 7 0 1)
     = Inr (\<lparr>roll_w = 9, pitch_w = 4, yaw_w = 9, currentPose = 1\<rparr>, [vibrate 7 VibrationMedium])
   \<and> pitch_w \<lparr>roll_w = 9, pitch_w = 4, yaw_w = 9, currentPose = 0 :: nat\<rparr> < 5
   \<and> [vibrate 7 VibrationMedium] \<noteq> []
   \<and> dispatch (1 :: nat) \<lparr>roll_w = 9, pitch_w = 5, yaw_w = 9, currentPose = 0\<rparr> (Pose 7 0 1)
     = Inr (\<lparr>roll_w = 9, pitch_w = 5, yaw_w = 9, currentPose = 1\<rparr>, [])
   \<and> dispatch (1 :: nat) \<lparr>roll_w = 9, pitch_w = 4, yaw_w = 9, currentPose = 0\<rparr> (Pose 7 0 2)
     = Inr (\<lparr>roll_w = 9, pitch_w = 4, yaw_w = 9, currentPose = 2\<rparr>, [])"
proof -
  have a: "dispatch (1 :: nat) \<lparr>roll_w = 9, pitch_w = 4, yaw_w = 9, currentPose = 0\<rparr> (Pose 7 0 1)
     = Inr (\<lparr>roll_w = 9, pitch_w = 4, yaw_w = 9, currentPose = 1\<rparr>, [vibrate 7 VibrationMedium])"
    by (simp add: onPose_def)
  have b: "dispatch (1 :: nat) \<lparr>roll_w = 9, pitch_w = 5, yaw_w = 9, currentPose = 0\<rparr> (Pose 7 0 1)
     = Inr (\<lparr>roll_w = 9, pitch_w = 5, yaw_w = 9, currentPose = 1\<rparr>, [])"
    by (simp add: onPose_def)
  have c: "dispatch (1 :: nat) \<lparr>roll_w = 9, pitch_w = 4, yaw_w = 9, currentPose = 0\<rparr> (Pose 7 0 2)
     = Inr (\<lparr>roll_w = 9, pitch_w = 4, yaw_w = 9, currentPose = 2\<rparr>, [])"
    by (simp add: onPose_def)
  from a b c
    vibration_iff_fist_below_5 [where fist = "1 :: nat"
      and c = "\<lparr>roll_w = 9, pitch_w = 4, yaw_w = 9, currentPose = 0\<rparr>" and ev = "Pose 7 0 1"
      and c' = "\<lparr>roll_w = 9, pitch_w = 4, yaw_w = 9, currentPose = 1\<rparr>"
      and cmds = "[vibrate 7 VibrationMedium]"]
  show ?thesis by simp
qed

text \<open>
  C10. Each callback writes its own fields only. An orientation callback that
  completes leaves \<open>currentPose\<close> unchanged and changes at most \<open>roll_w\<close>, \<open>pitch_w\<close> and
  \<open>yaw_w\<close>; \<open>onPose\<close> replaces \<open>currentPose\<close> and leaves \<open>roll_w\<close>, \<open>pitch_w\<close> and \<open>yaw_w\<close>
  unchanged; \<open>print\<close> leaves the listener unchanged.
\<close>

theorem callbacks_write_own_fields:
  "(onOrientationData c m t quat = Inr c' \<longrightarrow>
      currentPose c' = currentPose c
      \<and> (\<exists>rw pw yw. c' = c\<lparr>roll_w := rw, pitch_w := pw, yaw_w := yw\<rparr>))
   \<and> fst (onPose fist c m t pose) = c\<lparr>currentPose := pose\<rparr>
   \<and> roll_w (fst (onPose fist c m t pose)) = roll_w c
   \<and> pitch_w (fst (onPose fist c m t pose)) = pitch_w c
   \<and> yaw_w (fst (onPose fist c m t pose)) = yaw_w c
   \<and> snd (print toString c) = c"
proof -
  have "currentPose c' = currentPose c
        \<and> (\<exists>rw pw yw. c' = c\<lparr>roll_w := rw, pitch_w := pw, yaw_w := yw\<rparr>)"
    if "onOrientationData c m t quat = Inr c'"
    using onOrientationData_writes [OF that] by auto
  then show ?thesis
    by (simp add: onPose_def Let_def print_keeps_state)
qed

text \<open>
  The theorem at a listener with the bar lengths 1, 2, 3 and the pose \<open>fist\<close>, the
  identity quaternion and the new pose \<open>rest\<close>.
\<close>

theorem callbacks_write_own_fields_witness:
  "onOrientationData \<lparr>roll_w = 1, pitch_w = 2, yaw_w = 3, currentPose = ''fist''\<rparr> 0 0 (Quaternion 0 0 0 1)
     = Inr \<lparr>roll_w = 9, pitch_w = 9, yaw_w = 9, currentPose = ''fist''\<rparr>
   \<and> currentPose \<lparr>roll_w = 9, pitch_w = 9, yaw_w = 9, currentPose = ''fist''\<rparr>
       = currentPose \<lparr>roll_w = 1, pitch_w = 2, yaw_w = 3, currentPose = ''fist''\<rparr>
   \<and> fst (onPose ''fist'' \<lparr>roll_w = 1, pitch_w = 2, yaw_w = 3, currentPose = ''fist''\<rparr> 0 0 ''rest'')
       = \<lparr>roll_w = 1, pitch_w = 2, yaw_w = 3, currentPose = ''rest''\<rparr>
   \<and> snd (print id \<lparr>roll_w = 1, pitch_w = 2, yaw_w = 3, currentPose = ''fist''\<rparr>)
       = \<lparr>roll_w = 1, pitch_w = 2, yaw_w = 3, currentPose = ''fist''\<rparr>"
proof -
  have o: "onOrientationData \<lparr>roll_w = 1, pitch_w = 2, yaw_w = 3, currentPose = ''fist''\<rparr> 0 0 (Quaternion 0 0 0 1)
     = Inr \<lparr>roll_w = 9, pitch_w = 9, yaw_w = 9, currentPose = ''fist''\<rparr>"
    by (simp add: onOrientationData_identity)
  from o
    callbacks_write_own_fields [where c = "\<lparr>roll_w = 1, pitch_w = 2, yaw_w = 3, currentPose = ''fist''\<rparr>"
      and m = 0 and t = 0 and quat = "Quaternion 0 0 0 1"
      and c' = "\<lparr>roll_w = 9, pitch_w = 9, yaw_w = 9, currentPose = ''fist''\<rparr>"
      and fist = "''fist''" and pose = "''rest''" and toString = id]
  show ?thesis by simp
qed

section \<open>Start-up\<close>

text \<open>
  C8. Start-up ends with the program's own error, the \<open>std::runtime_error\<close> with the
  message \<open>Unable to find a Myo!\<close>, if and only if the call \<open>waitForAnyMyo(10000)\<close> is
  reached and returns null; the program throws no other error during start-up (any
  other exception there comes out of an SDK call). When no device is found, \<open>main\<close>
  returns whatever the fuel: the error is caught, \<open>Error: Unable to find a Myo!\<close> and the
  prompt \<open>Press enter to continue.\<close> are written to standard error, one character of
  input is awaited, and the exit status is 1.
\<close>

theorem no_device_is_the_only_error:
  "(fst (startup P w) = Inl (runtime_error ''Unable to find a Myo!'')
      \<longleftrightarrow> Hub_ctor P = None \<and> waitForAnyMyo P 10000 = Inr None)
   \<and> (\<forall>msg. fst (startup P w) = Inl (runtime_error msg) \<longrightarrow> msg = ''Unable to find a Myo!'')
   \<and> fst (startup P w) \<noteq> Inl length_error
   \<and> (Hub_ctor P = None \<and> waitForAnyMyo P 10000 = Inr None \<longrightarrow>
        main P fuel =
          Some (Inr (1, \<lparr>stdout = ''Bike signs.'' @ endl @ ''Attempting to find a Myo...'' @ endl,
                         stderr = ''Error: Unable to find a Myo!'' @ endl @ ''Press enter to continue.'',
                         stdin_ignored = 1, commands = []\<rparr>)))"
proof -
  have 1: "fst (startup P w) = Inl (runtime_error ''Unable to find a Myo!'')
      \<longleftrightarrow> Hub_ctor P = None \<and> waitForAnyMyo P 10000 = Inr None"
    by (simp add: startup_cases split: option.splits sum.splits)
  have 2: "\<forall>msg. fst (startup P w) = Inl (runtime_error msg) \<longrightarrow> msg = ''Unable to find a Myo!''"
    by (simp add: startup_cases split: option.splits sum.splits)
  have 3: "fst (startup P w) \<noteq> Inl length_error"
    by (simp add: startup_cases split: option.splits sum.splits)
  have 4: "main P fuel =
          Some (Inr (1, \<lparr>stdout = ''Bike signs.'' @ endl @ ''Attempting to find a Myo...'' @ endl,
                         stderr = ''Error: Unable to find a Myo!'' @ endl @ ''Press enter to continue.'',
                         stdin_ignored = 1, commands = []\<rparr>))"
    if "Hub_ctor P = None \<and> waitForAnyMyo P 10000 = Inr None"
    using that by (simp add: main_def startup_no_device catch_exception_def world_init_def)
  from 1 2 3 4 show ?thesis by blast
qed

text \<open>
  The theorem at a platform whose hub is created and finds no device; with a device
  found, start-up returns it and raises nothing.
\<close>

theorem no_device_is_the_only_error_witness:
  "Hub_ctor \<lparr>Hub_ctor = None, waitForAnyMyo = (\<lambda>ms. Inr None), macAddress = (\<lambda>m. 0),
             run = (\<lambda>i ms. Inr []), Pose_default = (), Pose_fist = (),
             Pose_toString = (\<lambda>pose. ''rest''), length_error_what = ''string too long''\<rparr> = None
   \<and> waitForAnyMyo \<lparr>Hub_ctor = None, waitForAnyMyo = (\<lambda>ms. Inr None), macAddress = (\<lambda>m. 0),
             run = (\<lambda>i ms. Inr []), Pose_default = (), Pose_fist = (),
             Pose_toString = (\<lambda>pose. ''rest''), length_error_what = ''string too long''\<rparr> 10000 = Inr None
   \<and> fst (startup \<lparr>Hub_ctor = None, waitForAnyMyo = (\<lambda>ms. Inr None), macAddress = (\<lambda>m. 0),
             run = (\<lambda>i ms. Inr []), Pose_default = (), Pose_fist = (),
             Pose_toString = (\<lambda>pose. ''rest''), length_error_what = ''string too long''\<rparr> world_init)
       = Inl (runtime_error ''Unable to find a Myo!'')
   \<and> main \<lparr>Hub_ctor = None, waitForAnyMyo = (\<lambda>ms. Inr None), macAddress = (\<lambda>m. 0),
             run = (\<lambda>i ms. Inr []), Pose_default = (), Pose_fist = (),
             Pose_toString = (\<lambda>pose. ''rest''), length_error_what = ''string too long''\<rparr> 0
       = Some (Inr (1, \<lparr>stdout = ''Bike signs.'' @ endl @ ''Attempting to find a Myo...'' @ endl,
                         stderr = ''Error: Unable to find a Myo!'' @ endl @ ''Press enter to continue.'',
                         stdin_ignored = 1, commands = []\<rparr>))
   \<and> fst (startup \<lparr>Hub_ctor = None, waitForAnyMyo = (\<lambda>ms. Inr (Some 3)), macAddress = (\<lambda>m. 0),
             run = (\<lambda>i ms. Inr []), Pose_default = (), Pose_fist = (),
             Pose_toString = (\<lambda>pose. ''rest''), length_error_what = ''string too long''\<rparr> world_init)
       = Inr 3"
  using
    no_device_is_the_only_error [where w = world_init and fuel = 0
      and P = "\<lparr>Hub_ctor = None, waitForAnyMyo = (\<lambda>ms. Inr None), macAddress = (\<lambda>m. 0),
             run = (\<lambda>i ms. Inr []), Pose_default = (), Pose_fist = (),
             Pose_toString = (\<lambda>pose. ''rest''), length_error_what = ''string too long''\<rparr>"]
  by (simp add: startup_cases)

end
